theory Spec2Isabelle
  imports Complex_Main "HOL-Library.Char_ord" "HOL-Library.List_Lexorder"
    "HOL-Library.Product_Lexorder"
begin

section \<open>Data model\<close>

text \<open>
  One row of \<^verbatim>\<open>EA.csv\<close>, with the columns that \<^verbatim>\<open>app.py\<close> reads. Categorical columns are
  strings, ordinal and numeric columns are integers. Every cell is taken to be present: the
  model has no missing value in a column of the file.
\<close>

record csv_row =
  Attrition :: string
  Department :: string
  JobRole :: string
  EducationField :: string
  Gender :: string
  MaritalStatus :: string
  BusinessTravel :: string
  OverTime :: string
  Education :: int
  JobLevel :: int
  EnvironmentSatisfaction :: int
  JobSatisfaction :: int
  RelationshipSatisfaction :: int
  WorkLifeBalance :: int
  PerformanceRating :: int
  JobInvolvement :: int
  Age :: int
  MonthlyIncome :: int
  YearsAtCompany :: int
  YearsInCurrentRole :: int
  NumCompaniesWorked :: int
  YearsSinceLastPromotion :: int

text \<open>A row of the loaded table: the row of the file and the column derived by \<^verbatim>\<open>load_data\<close>.\<close>

record employee = csv_row +
  Attrition_Binary :: int

text \<open>
  A data frame of the dashboard: its rows, and the one column that the script assigns after
  loading (\<^verbatim>\<open>filtered_df['YearsAtCompany_Binned'] = ...\<close>, line 315). That column is \<open>None\<close>
  while the frame does not have it; a cell of it is \<open>None\<close> where \<^verbatim>\<open>pd.cut\<close> gives NaN.
\<close>

record dataframe =
  rows :: "employee list"
  YearsAtCompany_Binned :: "string option list option"

definition column :: "(employee \<Rightarrow> 'a) \<Rightarrow> dataframe \<Rightarrow> 'a list" where
  \<comment> \<open>\<^verbatim>\<open>df['name']\<close>\<close>
  "column f df = map f (rows df)"

section \<open>Dataset loader (lines 16-29)\<close>

text \<open>The outcome of \<^verbatim>\<open>pd.read_csv(file_path)\<close>, which the file system decides.\<close>

datatype 'a read_csv = FileNotFoundError | OtherException | Parsed 'a

datatype load_error = NotFoundError | LoadError

definition attrition_binary :: "string \<Rightarrow> int" where
  \<comment> \<open>\<^verbatim>\<open>lambda x: 1 if x == 'Yes' else 0\<close>\<close>
  "attrition_binary x = (if x = ''Yes'' then 1 else 0)"

definition add_Attrition_Binary :: "csv_row \<Rightarrow> employee" where
  "add_Attrition_Binary r =
     csv_row.extend r (employee.fields (attrition_binary (Attrition r)))"

definition load_data :: "csv_row list read_csv \<Rightarrow> load_error + dataframe" where
  "load_data f =
     (case f of
        Parsed t \<Rightarrow> Inr \<lparr>rows = map add_Attrition_Binary t, YearsAtCompany_Binned = None\<rparr>
      | FileNotFoundError \<Rightarrow> Inl NotFoundError
      | OtherException \<Rightarrow> Inl LoadError)"

section \<open>Filter engine (lines 49-113)\<close>

text \<open>What the sidebar widgets return: four multiselect lists and two slider ranges.\<close>

record criteria =
  selected_attrition :: "string list"
  selected_department :: "string list"
  selected_job_role :: "string list"
  selected_education_field :: "string list"
  income_range :: "int \<times> int"
  age_range :: "int \<times> int"

text \<open>The vectorised comparisons of pandas, each giving a boolean mask over the rows.\<close>

definition isin :: "'a list \<Rightarrow> 'a list \<Rightarrow> bool list" where
  "isin s vals = map (\<lambda>x. x \<in> set vals) s"

definition ge :: "int list \<Rightarrow> int \<Rightarrow> bool list" where
  "ge s n = map (\<lambda>x. n \<le> x) s"

definition le :: "int list \<Rightarrow> int \<Rightarrow> bool list" where
  "le s n = map (\<lambda>x. x \<le> n) s"

definition eq :: "'a list \<Rightarrow> 'a \<Rightarrow> bool list" where
  "eq s a = map (\<lambda>x. x = a) s"

definition and_mask :: "bool list \<Rightarrow> bool list \<Rightarrow> bool list" where
  "and_mask a b = map2 (\<and>) a b"

definition take_rows :: "bool list \<Rightarrow> 'a list \<Rightarrow> 'a list" where
  "take_rows msk xs = map snd (filter fst (zip msk xs))"

definition getitem_mask :: "dataframe \<Rightarrow> bool list \<Rightarrow> dataframe" where
  \<comment> \<open>\<^verbatim>\<open>df[mask]\<close>: a new frame with the rows where the mask is true, all columns kept\<close>
  "getitem_mask df msk =
     \<lparr>rows = take_rows msk (rows df),
      YearsAtCompany_Binned = map_option (take_rows msk) (YearsAtCompany_Binned df)\<rparr>"

definition filtered_df :: "dataframe \<Rightarrow> criteria \<Rightarrow> dataframe" where
  "filtered_df df c =
     getitem_mask df
       (and_mask (and_mask (and_mask (and_mask (and_mask (and_mask (and_mask
          (isin (column Attrition df) (selected_attrition c))
          (isin (column Department df) (selected_department c)))
          (isin (column JobRole df) (selected_job_role c)))
          (isin (column EducationField df) (selected_education_field c)))
          (ge (column MonthlyIncome df) (fst (income_range c))))
          (le (column MonthlyIncome df) (snd (income_range c))))
          (ge (column Age df) (fst (age_range c))))
          (le (column Age df) (snd (age_range c))))"

definition empty_df :: "dataframe \<Rightarrow> bool" where
  \<comment> \<open>\<^verbatim>\<open>df.empty\<close>: the frame has columns, so it is empty when it has no row\<close>
  "empty_df df = (rows df = [])"

section \<open>Aggregation transforms (lines 116-452)\<close>

text \<open>
  pandas computes means in floating point. The model computes them exactly, as rationals;
  \<open>None\<close> stands for NaN, the mean of an empty series.
\<close>

definition mean :: "rat list \<Rightarrow> rat option" where
  "mean xs = (if xs = [] then None else Some (sum_list xs / of_nat (length xs)))"

definition group_values :: "'k list \<Rightarrow> 'v list \<Rightarrow> 'k \<Rightarrow> 'v list" where
  \<comment> \<open>the values of the rows whose key is \<open>k\<close>\<close>
  "group_values keys vals k = map snd (filter (\<lambda>kv. fst kv = k) (zip keys vals))"

definition groupby_mean :: "('k::linorder) list \<Rightarrow> rat list \<Rightarrow> ('k \<times> rat option) list" where
  \<comment> \<open>\<^verbatim>\<open>df.groupby(key)[col].mean().reset_index()\<close>: one row for each key that occurs,
      keys ascending\<close>
  "groupby_mean keys vals =
     map (\<lambda>k. (k, mean (group_values keys vals k))) (sort (remdups keys))"

definition groupby_mean_categorical ::
  "bool \<Rightarrow> 'c list \<Rightarrow> 'c option list \<Rightarrow> rat list \<Rightarrow> ('c \<times> rat option) list" where
  \<comment> \<open>the same on a categorical key column: rows whose key is NaN are in no group; the
      result follows the order of the categories and has every category, or with
      \<open>observed\<close> only those that occur (the default of \<^verbatim>\<open>observed\<close> depends on the version
      of pandas, which the repository does not fix)\<close>
  "groupby_mean_categorical observed categories keys vals =
     map (\<lambda>c. (c, mean (group_values keys vals (Some c))))
       (if observed then filter (\<lambda>c. Some c \<in> set keys) categories else categories)"

type_synonym 'k rates = "('k \<times> rat option \<times> rat option) list"

definition add_Attrition_Rate :: "('k \<times> rat option) list \<Rightarrow> 'k rates" where
  \<comment> \<open>\<^verbatim>\<open>res['Attrition_Rate'] = res['Attrition_Binary'] * 100\<close>: rows of key, mean, rate\<close>
  "add_Attrition_Rate res = map (\<lambda>km. (fst km, snd km, map_option (\<lambda>m. m * 100) (snd km))) res"

text \<open>
  Every transform takes the view and returns its result with the view as it is afterwards.
  The eighteen rate-by-dimension charts are \<open>attrition_by\<close> at one column each.
\<close>

definition attrition_by :: "(employee \<Rightarrow> 'k::linorder) \<Rightarrow> dataframe \<Rightarrow> 'k rates \<times> dataframe" where
  "attrition_by field v =
     (add_Attrition_Rate
        (groupby_mean (column field v) (map of_int (column Attrition_Binary v))), v)"

definition bins :: "int list" where
  "bins = [0, 1, 3, 5, 10, 15, 20, 30, 40]"

definition labels :: "string list" where
  "labels = [''<1'', ''1-3'', ''3-5'', ''5-10'', ''10-15'', ''15-20'', ''20-30'', ''30+'']"

fun cut_value :: "int list \<Rightarrow> string list \<Rightarrow> int \<Rightarrow> string option" where
  "cut_value (lo # hi # bs) (l # ls) x =
     (if lo \<le> x \<and> x < hi then Some l else cut_value (hi # bs) ls x)"
| "cut_value _ _ _ = None"

definition cut_series :: "int list \<Rightarrow> int list \<Rightarrow> string list \<Rightarrow> string option list" where
  \<comment> \<open>\<^verbatim>\<open>pd.cut(s, bins=bs, labels=ls, right=False)\<close>\<close>
  "cut_series s bs ls = map (cut_value bs ls) s"

definition setitem_YearsAtCompany_Binned :: "dataframe \<Rightarrow> string option list \<Rightarrow> dataframe" where
  \<comment> \<open>\<^verbatim>\<open>filtered_df['YearsAtCompany_Binned'] = col\<close>\<close>
  "setitem_YearsAtCompany_Binned v col = v\<lparr>YearsAtCompany_Binned := Some col\<rparr>"

definition attrition_by_years_company :: "bool \<Rightarrow> dataframe \<Rightarrow> string rates \<times> dataframe" where
  "attrition_by_years_company observed v =
     (let binned = cut_series (column YearsAtCompany v) bins labels;
          v' = setitem_YearsAtCompany_Binned v binned
      in (add_Attrition_Rate
            (groupby_mean_categorical observed labels binned
               (map of_int (column Attrition_Binary v'))), v'))"

definition avg_income_edu_attrition ::
  "dataframe \<Rightarrow> ((int \<times> string) \<times> rat option) list \<times> dataframe" where
  "avg_income_edu_attrition v =
     (groupby_mean (zip (column Education v) (column Attrition v))
        (map of_int (column MonthlyIncome v)), v)"

datatype py_error = ZeroDivisionError

definition true_div :: "int \<Rightarrow> int \<Rightarrow> py_error + rat" where
  \<comment> \<open>\<^verbatim>\<open>a / b\<close> on Python integers\<close>
  "true_div a b = (if b = 0 then Inl ZeroDivisionError else Inr (of_int a / of_int b))"

datatype rate_display = Rate rat | NA

record kpi =
  total_employees :: int
  attrition_count :: int
  attrition_rate :: rate_display

definition kpis :: "dataframe \<Rightarrow> (py_error + kpi) \<times> dataframe" where
  "kpis v =
     (let count = int (length (rows (getitem_mask v (eq (column Attrition v) ''Yes''))));
          total = int (length (rows v))
      in (if total > 0
          then (case true_div count total of
                  Inl e \<Rightarrow> Inl e
                | Inr q \<Rightarrow> Inr \<lparr>total_employees = total, attrition_count = count,
                                attrition_rate = Rate (q * 100)\<rparr>)
          else Inr \<lparr>total_employees = total, attrition_count = count, attrition_rate = NA\<rparr>,
          v))"

section \<open>The script, one pass\<close>

text \<open>
  What one run of the script shows, in order. \<^verbatim>\<open>st.stop()\<close> ends the run, and so does an
  exception. The run holds the KPIs, the rate charts (each named by the column it groups
  by), the mean-income chart and the raw data; the pie chart of value counts and the charts
  that plot the rows themselves (histograms, scatter) are not modelled.
\<close>

datatype shown =
    Warning string
  | Raised py_error
  | Metrics kpi
  | StrRates string "string rates"
  | IntRates string "int rates"
  | MeanIncome "((int \<times> string) \<times> rat option) list"
  | RawData dataframe

fun is_aggregation :: "shown \<Rightarrow> bool" where
  "is_aggregation (Metrics _) = True"
| "is_aggregation (StrRates _ _) = True"
| "is_aggregation (IntRates _ _) = True"
| "is_aggregation (MeanIncome _) = True"
| "is_aggregation _ = False"

definition tabs :: "bool \<Rightarrow> dataframe \<Rightarrow> shown list" where
  "tabs observed v0 =
     (let (k, v) = kpis v0 in
      case k of
        Inl e \<Rightarrow> [Raised e]
      | Inr k \<Rightarrow>
         (let (by_department, v) = attrition_by Department v;
              (by_jobrole, v) = attrition_by JobRole v;
              (by_gender, v) = attrition_by Gender v;
              (by_marital, v) = attrition_by MaritalStatus v;
              (by_edu_field, v) = attrition_by EducationField v;
              (by_education, v) = attrition_by Education v;
              (by_joblevel, v) = attrition_by JobLevel v;
              (by_travel, v) = attrition_by BusinessTravel v;
              (by_overtime, v) = attrition_by OverTime v;
              (by_years_company, v) = attrition_by_years_company observed v;
              (by_years_current_role, v) = attrition_by YearsInCurrentRole v;
              (by_num_companies, v) = attrition_by NumCompaniesWorked v;
              (by_promotion, v) = attrition_by YearsSinceLastPromotion v;
              (by_env_sat, v) = attrition_by EnvironmentSatisfaction v;
              (by_job_sat, v) = attrition_by JobSatisfaction v;
              (by_rel_sat, v) = attrition_by RelationshipSatisfaction v;
              (by_wlb, v) = attrition_by WorkLifeBalance v;
              (by_perf, v) = attrition_by PerformanceRating v;
              (by_job_involvement, v) = attrition_by JobInvolvement v;
              (avg_income, v) = avg_income_edu_attrition v
          in [Metrics k,
              StrRates ''Department'' by_department,
              StrRates ''JobRole'' by_jobrole,
              StrRates ''Gender'' by_gender,
              StrRates ''MaritalStatus'' by_marital,
              StrRates ''EducationField'' by_edu_field,
              IntRates ''Education'' by_education,
              IntRates ''JobLevel'' by_joblevel,
              StrRates ''BusinessTravel'' by_travel,
              StrRates ''OverTime'' by_overtime,
              StrRates ''YearsAtCompany_Binned'' by_years_company,
              IntRates ''YearsInCurrentRole'' by_years_current_role,
              IntRates ''NumCompaniesWorked'' by_num_companies,
              IntRates ''YearsSinceLastPromotion'' by_promotion,
              IntRates ''EnvironmentSatisfaction'' by_env_sat,
              IntRates ''JobSatisfaction'' by_job_sat,
              IntRates ''RelationshipSatisfaction'' by_rel_sat,
              IntRates ''WorkLifeBalance'' by_wlb,
              IntRates ''PerformanceRating'' by_perf,
              IntRates ''JobInvolvement'' by_job_involvement,
              MeanIncome avg_income,
              RawData v]))"

definition dashboard :: "bool \<Rightarrow> dataframe \<Rightarrow> criteria \<Rightarrow> shown list" where
  "dashboard observed df c =
     (let v = filtered_df df c
      in if empty_df v
         then [Warning ''No data matches the selected filters. Please adjust your selections.'']
         else tabs observed v)"

section \<open>Example data\<close>

definition example_row :: "string \<Rightarrow> string \<Rightarrow> int \<Rightarrow> int \<Rightarrow> int \<Rightarrow> csv_row" where
  "example_row attrition department age income years =
     \<lparr>Attrition = attrition, Department = department, JobRole = ''Sales Executive'',
      EducationField = ''Medical'', Gender = ''Female'', MaritalStatus = ''Single'',
      BusinessTravel = ''Travel_Rarely'', OverTime = ''No'', Education = 3, JobLevel = 2,
      EnvironmentSatisfaction = 3, JobSatisfaction = 4, RelationshipSatisfaction = 2,
      WorkLifeBalance = 3, PerformanceRating = 3, JobInvolvement = 3, Age = age,
      MonthlyIncome = income, YearsAtCompany = years, YearsInCurrentRole = 2,
      NumCompaniesWorked = 1, YearsSinceLastPromotion = 0\<rparr>"

definition example_frame :: "csv_row list \<Rightarrow> dataframe" where
  \<comment> \<open>the frame that \<open>load_data\<close> gives for a parsed table\<close>
  "example_frame t = \<lparr>rows = map add_Attrition_Binary t, YearsAtCompany_Binned = None\<rparr>"

definition three_rows :: "csv_row list" where
  \<comment> \<open>the three rows of the example of the specification\<close>
  "three_rows =
     [example_row ''Yes'' ''Sales'' 30 5000 2,
      example_row ''No'' ''Sales'' 41 7000 12,
      example_row ''Yes'' ''RnD'' 25 3000 40]"

definition select_all :: criteria where
  "select_all =
     \<lparr>selected_attrition = [''Yes'', ''No''], selected_department = [''Sales'', ''RnD''],
      selected_job_role = [''Sales Executive''], selected_education_field = [''Medical''],
      income_range = (3000, 7000), age_range = (25, 41)\<rparr>"

section \<open>Properties of the loader\<close>

lemma add_Attrition_Binary_truncate [simp]:
  "csv_row.truncate (add_Attrition_Binary r) = r"
  by (simp add: add_Attrition_Binary_def csv_row.defs employee.defs)

lemma add_Attrition_Binary_value [simp]:
  "Attrition_Binary (add_Attrition_Binary r) = (if Attrition r = ''Yes'' then 1 else 0)"
  by (simp add: add_Attrition_Binary_def attrition_binary_def csv_row.defs employee.defs)

lemma add_Attrition_Binary_fields [simp]:
  "Attrition (add_Attrition_Binary r) = Attrition r"
  "Department (add_Attrition_Binary r) = Department r"
  "JobRole (add_Attrition_Binary r) = JobRole r"
  "EducationField (add_Attrition_Binary r) = EducationField r"
  "Education (add_Attrition_Binary r) = Education r"
  "Age (add_Attrition_Binary r) = Age r"
  "MonthlyIncome (add_Attrition_Binary r) = MonthlyIncome r"
  "YearsAtCompany (add_Attrition_Binary r) = YearsAtCompany r"
  by (simp_all add: add_Attrition_Binary_def csv_row.defs employee.defs)

lemma example_fields [simp]:
  "Attrition (example_row a d g i y) = a"
  "Department (example_row a d g i y) = d"
  "JobRole (example_row a d g i y) = ''Sales Executive''"
  "EducationField (example_row a d g i y) = ''Medical''"
  "Education (example_row a d g i y) = 3"
  "Age (example_row a d g i y) = g"
  "MonthlyIncome (example_row a d g i y) = i"
  "YearsAtCompany (example_row a d g i y) = y"
  by (simp_all add: example_row_def)

text \<open>
  Claim C10. For every parsed table the loader succeeds, whatever the Attrition cells hold
  (nothing is validated), keeps every row of the file as it is, and the derived column
  Attrition_Binary is 1 on exactly the rows whose Attrition is the string "Yes" and 0 on
  every other row, so it is always 0 or 1.
\<close>

theorem load_data_Attrition_Binary:
  "\<exists>df. load_data (Parsed t) = Inr df \<and> length (rows df) = length t \<and>
     (\<forall>i < length t.
        csv_row.truncate (rows df ! i) = t ! i \<and>
        (Attrition_Binary (rows df ! i) = 1 \<longleftrightarrow> Attrition (t ! i) = ''Yes'') \<and>
        (Attrition_Binary (rows df ! i) = 0 \<longleftrightarrow> Attrition (t ! i) \<noteq> ''Yes'') \<and>
        Attrition_Binary (rows df ! i) \<in> {0, 1})"
  by (simp add: load_data_def)

text \<open>At a table whose Attrition cells are "Yes", "No", "yes" and "Y": 1, 0, 0 and 0.\<close>

theorem load_data_Attrition_Binary_witness:
  "\<exists>df. load_data (Parsed [example_row ''Yes'' ''Sales'' 30 5000 2,
       example_row ''No'' ''Sales'' 41 7000 12, example_row ''yes'' ''RnD'' 25 3000 40,
       example_row ''Y'' ''RnD'' 25 3000 40]) = Inr df \<and>
     Attrition_Binary (rows df ! 0) = 1 \<and> Attrition_Binary (rows df ! 1) = 0 \<and>
     Attrition_Binary (rows df ! 2) = 0 \<and> Attrition_Binary (rows df ! 3) = 0"
proof -
  let ?t = "[example_row ''Yes'' ''Sales'' 30 5000 2,
       example_row ''No'' ''Sales'' 41 7000 12, example_row ''yes'' ''RnD'' 25 3000 40,
       example_row ''Y'' ''RnD'' 25 3000 40]"
  from load_data_Attrition_Binary [of ?t] obtain df where
    df: "load_data (Parsed ?t) = Inr df" and
    all: "\<forall>i < length ?t.
        csv_row.truncate (rows df ! i) = ?t ! i \<and>
        (Attrition_Binary (rows df ! i) = 1 \<longleftrightarrow> Attrition (?t ! i) = ''Yes'') \<and>
        (Attrition_Binary (rows df ! i) = 0 \<longleftrightarrow> Attrition (?t ! i) \<noteq> ''Yes'') \<and>
        Attrition_Binary (rows df ! i) \<in> {0, 1}"
    by blast
  from all have "Attrition_Binary (rows df ! 0) = 1" by simp
  moreover from all have "Attrition_Binary (rows df ! 1) = 0" by simp
  moreover from all have "Attrition_Binary (rows df ! 2) = 0" by (simp add: numeral_2_eq_2)
  moreover from all have "Attrition_Binary (rows df ! 3) = 0" by (simp add: numeral_3_eq_3)
  ultimately show ?thesis using df by blast
qed

section \<open>Properties of the filter engine\<close>

lemma take_rows_map: "take_rows (map P xs) xs = filter P xs"
  by (induction xs) (simp_all add: take_rows_def)

lemma and_mask_map: "and_mask (map P xs) (map Q xs) = map (\<lambda>x. P x \<and> Q x) xs"
  by (induction xs) (simp_all add: and_mask_def)

lemma isin_column: "isin (column f df) vs = map (\<lambda>r. f r \<in> set vs) (rows df)"
  by (simp add: isin_def column_def)

lemma ge_column: "ge (column f df) n = map (\<lambda>r. n \<le> f r) (rows df)"
  by (simp add: ge_def column_def)

lemma le_column: "le (column f df) n = map (\<lambda>r. f r \<le> n) (rows df)"
  by (simp add: le_def column_def)

lemma eq_column: "eq (column f df) a = map (\<lambda>r. f r = a) (rows df)"
  by (simp add: eq_def column_def)

text \<open>The column-wise masks of the script select the rows that pass the row-wise predicate.\<close>

lemma rows_filtered_df:
  "rows (filtered_df df c) =
     filter (\<lambda>r. Attrition r \<in> set (selected_attrition c) \<and>
                 Department r \<in> set (selected_department c) \<and>
                 JobRole r \<in> set (selected_job_role c) \<and>
                 EducationField r \<in> set (selected_education_field c) \<and>
                 fst (income_range c) \<le> MonthlyIncome r \<and>
                 MonthlyIncome r \<le> snd (income_range c) \<and>
                 fst (age_range c) \<le> Age r \<and>
                 Age r \<le> snd (age_range c)) (rows df)"
  by (simp add: filtered_df_def getitem_mask_def isin_column ge_column le_column
      and_mask_map take_rows_map conj_assoc)

text \<open>
  Claim C1. For every table and every criteria, a record is in the filtered view if and
  only if it is a record of the table, its Attrition, Department, JobRole and EducationField
  are each a member of the selected list of that dimension, and its MonthlyIncome and Age lie
  in the inclusive ranges; and when the selected list of any dimension is empty, the
  filtered view is empty.
\<close>

theorem filtered_df_membership:
  "(r \<in> set (rows (filtered_df df c)) \<longleftrightarrow>
      r \<in> set (rows df) \<and>
      Attrition r \<in> set (selected_attrition c) \<and>
      Department r \<in> set (selected_department c) \<and>
      JobRole r \<in> set (selected_job_role c) \<and>
      EducationField r \<in> set (selected_education_field c) \<and>
      fst (income_range c) \<le> MonthlyIncome r \<and> MonthlyIncome r \<le> snd (income_range c) \<and>
      fst (age_range c) \<le> Age r \<and> Age r \<le> snd (age_range c)) \<and>
   (selected_attrition c = [] \<or> selected_department c = [] \<or> selected_job_role c = [] \<or>
      selected_education_field c = [] \<longrightarrow> rows (filtered_df df c) = [])"
  by (auto simp add: rows_filtered_df filter_empty_conv)

text \<open>
  On the three example rows: the second row passes the criteria that select everything, and
  no row passes once the list of departments is empty.
\<close>

theorem filtered_df_membership_witness:
  "add_Attrition_Binary (example_row ''No'' ''Sales'' 41 7000 12)
     \<in> set (rows (filtered_df (example_frame three_rows) select_all)) \<and>
   rows (filtered_df (example_frame three_rows) (select_all\<lparr>selected_department := []\<rparr>)) = []"
proof -
  let ?r = "add_Attrition_Binary (example_row ''No'' ''Sales'' 41 7000 12)"
  have "?r \<in> set (rows (example_frame three_rows))"
    by (simp add: example_frame_def three_rows_def)
  then have "?r \<in> set (rows (filtered_df (example_frame three_rows) select_all))"
    using filtered_df_membership [of ?r "example_frame three_rows" select_all]
    by (simp add: select_all_def)
  moreover have
    "rows (filtered_df (example_frame three_rows) (select_all\<lparr>selected_department := []\<rparr>)) = []"
    using filtered_df_membership
      [of ?r "example_frame three_rows" "select_all\<lparr>selected_department := []\<rparr>"]
    by simp
  ultimately show ?thesis by simp
qed

text \<open>
  Claim C2. For every criteria the filtered view has at most as many rows as the full
  dataset, and it has exactly as many when the selected list of every categorical dimension
  contains every value that occurs in the dataset and the Age and MonthlyIncome ranges span
  the minimum to the maximum of the dataset for those columns.
\<close>

theorem filtered_df_size:
  "length (rows (filtered_df df c)) \<le> length (rows df) \<and>
   (set (column Attrition df) \<subseteq> set (selected_attrition c) \<and>
    set (column Department df) \<subseteq> set (selected_department c) \<and>
    set (column JobRole df) \<subseteq> set (selected_job_role c) \<and>
    set (column EducationField df) \<subseteq> set (selected_education_field c) \<and>
    (rows df \<noteq> [] \<longrightarrow>
       fst (income_range c) \<le> Min (set (column MonthlyIncome df)) \<and>
       Max (set (column MonthlyIncome df)) \<le> snd (income_range c) \<and>
       fst (age_range c) \<le> Min (set (column Age df)) \<and>
       Max (set (column Age df)) \<le> snd (age_range c))
    \<longrightarrow> length (rows (filtered_df df c)) = length (rows df))"
proof (intro conjI impI)
  show "length (rows (filtered_df df c)) \<le> length (rows df)"
    by (simp add: rows_filtered_df)
next
  assume h:
    "set (column Attrition df) \<subseteq> set (selected_attrition c) \<and>
     set (column Department df) \<subseteq> set (selected_department c) \<and>
     set (column JobRole df) \<subseteq> set (selected_job_role c) \<and>
     set (column EducationField df) \<subseteq> set (selected_education_field c) \<and>
     (rows df \<noteq> [] \<longrightarrow>
       fst (income_range c) \<le> Min (set (column MonthlyIncome df)) \<and>
       Max (set (column MonthlyIncome df)) \<le> snd (income_range c) \<and>
       fst (age_range c) \<le> Min (set (column Age df)) \<and>
       Max (set (column Age df)) \<le> snd (age_range c))"
  have "filter (\<lambda>r. Attrition r \<in> set (selected_attrition c) \<and>
                 Department r \<in> set (selected_department c) \<and>
                 JobRole r \<in> set (selected_job_role c) \<and>
                 EducationField r \<in> set (selected_education_field c) \<and>
                 fst (income_range c) \<le> MonthlyIncome r \<and>
                 MonthlyIncome r \<le> snd (income_range c) \<and>
                 fst (age_range c) \<le> Age r \<and>
                 Age r \<le> snd (age_range c)) (rows df) = rows df"
  proof (rule filter_True, intro ballI)
    fix r assume r: "r \<in> set (rows df)"
    then have ne: "rows df \<noteq> []" by auto
    from r have inc: "MonthlyIncome r \<in> set (column MonthlyIncome df)"
      and age: "Age r \<in> set (column Age df)"
      by (simp_all add: column_def)
    have "Min (set (column MonthlyIncome df)) \<le> MonthlyIncome r"
      "MonthlyIncome r \<le> Max (set (column MonthlyIncome df))"
      "Min (set (column Age df)) \<le> Age r" "Age r \<le> Max (set (column Age df))"
      using inc age by simp_all
    with h ne have "fst (income_range c) \<le> MonthlyIncome r"
      "MonthlyIncome r \<le> snd (income_range c)"
      "fst (age_range c) \<le> Age r" "Age r \<le> snd (age_range c)"
      by linarith+
    moreover from h r have "Attrition r \<in> set (selected_attrition c)"
      "Department r \<in> set (selected_department c)"
      "JobRole r \<in> set (selected_job_role c)"
      "EducationField r \<in> set (selected_education_field c)"
      by (auto simp add: column_def)
    ultimately show "Attrition r \<in> set (selected_attrition c) \<and>
                 Department r \<in> set (selected_department c) \<and>
                 JobRole r \<in> set (selected_job_role c) \<and>
                 EducationField r \<in> set (selected_education_field c) \<and>
                 fst (income_range c) \<le> MonthlyIncome r \<and>
                 MonthlyIncome r \<le> snd (income_range c) \<and>
                 fst (age_range c) \<le> Age r \<and>
                 Age r \<le> snd (age_range c)" by simp
  qed
  then show "length (rows (filtered_df df c)) = length (rows df)"
    by (simp add: rows_filtered_df)
qed

text \<open>
  The three example rows under criteria that select both Attrition values, both
  departments, the one job role and education field, incomes 3000 to 7000 and ages 25 to 41:
  all three rows remain.
\<close>

theorem filtered_df_size_witness:
  "length (rows (filtered_df (example_frame three_rows) select_all)) = 3"
proof -
  let ?df = "example_frame three_rows"
  have "set (column Attrition ?df) \<subseteq> set (selected_attrition select_all) \<and>
    set (column Department ?df) \<subseteq> set (selected_department select_all) \<and>
    set (column JobRole ?df) \<subseteq> set (selected_job_role select_all) \<and>
    set (column EducationField ?df) \<subseteq> set (selected_education_field select_all) \<and>
    (rows ?df \<noteq> [] \<longrightarrow>
       fst (income_range select_all) \<le> Min (set (column MonthlyIncome ?df)) \<and>
       Max (set (column MonthlyIncome ?df)) \<le> snd (income_range select_all) \<and>
       fst (age_range select_all) \<le> Min (set (column Age ?df)) \<and>
       Max (set (column Age ?df)) \<le> snd (age_range select_all))"
    by (simp add: example_frame_def three_rows_def select_all_def column_def)
  with filtered_df_size [of ?df select_all]
  have "length (rows (filtered_df ?df select_all)) = length (rows ?df)"
    by blast
  then show ?thesis
    by (simp add: example_frame_def three_rows_def)
qed

section \<open>Properties of the rate-by-dimension transform\<close>

lemma group_values_map:
  "group_values (map f xs) (map g xs) k = map g (filter (\<lambda>r. f r = k) xs)"
  by (induction xs) (simp_all add: group_values_def)

lemma of_int_column:
  "map rat_of_int (column g v) = map (\<lambda>r. of_int (g r)) (rows v)"
  by (simp add: column_def)

lemma groupby_mean_rows:
  "groupby_mean (map f xs) (map g xs) =
     map (\<lambda>k. (k, mean (map g (filter (\<lambda>r. f r = k) xs)))) (sort (remdups (map f xs)))"
  by (simp add: groupby_mean_def group_values_map)

lemma attrition_by_rows:
  "fst (attrition_by f v) =
     map (\<lambda>k. (k, mean (map (\<lambda>r. of_int (Attrition_Binary r)) (filter (\<lambda>r. f r = k) (rows v))),
               map_option (\<lambda>m. m * 100)
                 (mean (map (\<lambda>r. of_int (Attrition_Binary r)) (filter (\<lambda>r. f r = k) (rows v))))))
       (sort (remdups (map f (rows v))))"
  unfolding attrition_by_def add_Attrition_Rate_def of_int_column
  by (simp add: column_def groupby_mean_rows)

lemma map_of_graph:
  "map_of (map (\<lambda>k. (k, h k)) ks) k = (if k \<in> set ks then Some (h k) else None)"
  by (induction ks) simp_all

lemma mean_nonempty:
  "xs \<noteq> [] \<Longrightarrow> mean (map g xs) = Some (sum_list (map g xs) / of_nat (length xs))"
  by (simp add: mean_def)

text \<open>
  Claim C4. For every view and every grouping column, the rate-by-dimension transform has
  one row for each distinct value of the column (keys ascending), and the row of a value
  holds the mean of Attrition_Binary over the rows with that value, and that mean times 100.
  For three loaded rows (Sales, Yes), (Sales, No), (RnD, Yes), grouping by Department gives
  the rate 50 for Sales and 100 for RnD.
\<close>

theorem attrition_by_rate:
  "distinct (map fst (fst (attrition_by f v))) \<and>
   sorted (map fst (fst (attrition_by f v))) \<and>
   set (map fst (fst (attrition_by f v))) = set (column f v) \<and>
   (\<forall>k \<in> set (column f v).
      map_of (fst (attrition_by f v)) k =
        Some (Some ((\<Sum>r\<leftarrow>filter (\<lambda>r. f r = k) (rows v). of_int (Attrition_Binary r)) /
                    of_nat (length (filter (\<lambda>r. f r = k) (rows v)))),
              Some ((\<Sum>r\<leftarrow>filter (\<lambda>r. f r = k) (rows v). of_int (Attrition_Binary r)) /
                    of_nat (length (filter (\<lambda>r. f r = k) (rows v))) * 100))) \<and>
   (Department t1 = ''Sales'' \<and> Attrition t1 = ''Yes'' \<and>
    Department t2 = ''Sales'' \<and> Attrition t2 = ''No'' \<and>
    Department t3 = ''RnD'' \<and> Attrition t3 = ''Yes'' \<longrightarrow>
    fst (attrition_by Department (example_frame [t1, t2, t3])) =
      [(''RnD'', Some 1, Some 100), (''Sales'', Some (1 / 2), Some 50)])"
proof (intro conjI ballI impI)
  have keys: "map fst (fst (attrition_by f v)) = sort (remdups (map f (rows v)))"
    by (simp add: attrition_by_rows comp_def)
  show "distinct (map fst (fst (attrition_by f v)))" by (simp add: keys)
  show "sorted (map fst (fst (attrition_by f v)))" by (simp add: keys)
  show "set (map fst (fst (attrition_by f v))) = set (column f v)"
    by (simp add: keys column_def)
next
  fix k assume "k \<in> set (column f v)"
  then have k: "k \<in> set (sort (remdups (map f (rows v))))"
    and ne: "filter (\<lambda>r. f r = k) (rows v) \<noteq> []"
    by (auto simp add: column_def filter_empty_conv)
  show "map_of (fst (attrition_by f v)) k =
        Some (Some ((\<Sum>r\<leftarrow>filter (\<lambda>r. f r = k) (rows v). of_int (Attrition_Binary r)) /
                    of_nat (length (filter (\<lambda>r. f r = k) (rows v)))),
              Some ((\<Sum>r\<leftarrow>filter (\<lambda>r. f r = k) (rows v). of_int (Attrition_Binary r)) /
                    of_nat (length (filter (\<lambda>r. f r = k) (rows v))) * 100))"
    unfolding attrition_by_rows map_of_graph using k
    by (simp add: mean_nonempty [OF ne])
next
  assume "Department t1 = ''Sales'' \<and> Attrition t1 = ''Yes'' \<and>
    Department t2 = ''Sales'' \<and> Attrition t2 = ''No'' \<and>
    Department t3 = ''RnD'' \<and> Attrition t3 = ''Yes''"
  then show "fst (attrition_by Department (example_frame [t1, t2, t3])) =
      [(''RnD'', Some 1, Some 100), (''Sales'', Some (1 / 2), Some 50)]"
    by (simp add: attrition_by_rows example_frame_def mean_def)
qed

text \<open>
  On the three example rows: Sales occurs in the Department column, its row holds mean 1/2
  and rate 50, and the whole result is as the example of the specification says.
\<close>

theorem attrition_by_rate_witness:
  "map_of (fst (attrition_by Department (example_frame three_rows))) ''Sales'' = Some (Some (1 / 2), Some 50) \<and>
   fst (attrition_by Department (example_frame three_rows)) =
      [(''RnD'', Some 1, Some 100), (''Sales'', Some (1 / 2), Some 50)]"
proof -
  have "''Sales'' \<in> set (column Department (example_frame three_rows))"
    by (simp add: column_def example_frame_def three_rows_def)
  with attrition_by_rate [of Department "example_frame three_rows"]
  have "map_of (fst (attrition_by Department (example_frame three_rows))) ''Sales'' =
        Some (Some ((\<Sum>r\<leftarrow>filter (\<lambda>r. Department r = ''Sales'') (rows (example_frame three_rows)). of_int (Attrition_Binary r)) /
                    of_nat (length (filter (\<lambda>r. Department r = ''Sales'') (rows (example_frame three_rows))))),
              Some ((\<Sum>r\<leftarrow>filter (\<lambda>r. Department r = ''Sales'') (rows (example_frame three_rows)). of_int (Attrition_Binary r)) /
                    of_nat (length (filter (\<lambda>r. Department r = ''Sales'') (rows (example_frame three_rows)))) * 100))"
    by blast
  then have a: "map_of (fst (attrition_by Department (example_frame three_rows))) ''Sales'' = Some (Some (1 / 2), Some 50)"
    by (simp add: example_frame_def three_rows_def)
  have "Department (three_rows ! 0) = ''Sales'' \<and> Attrition (three_rows ! 0) = ''Yes'' \<and>
    Department (three_rows ! 1) = ''Sales'' \<and> Attrition (three_rows ! 1) = ''No'' \<and>
    Department (three_rows ! 2) = ''RnD'' \<and> Attrition (three_rows ! 2) = ''Yes''"
    by (simp add: three_rows_def)
  with attrition_by_rate [of Department "example_frame three_rows" "three_rows ! 0" "three_rows ! 1" "three_rows ! 2"]
  have "fst (attrition_by Department (example_frame [three_rows ! 0, three_rows ! 1, three_rows ! 2])) =
      [(''RnD'', Some 1, Some 100), (''Sales'', Some (1 / 2), Some 50)]"
    by blast
  moreover have "[three_rows ! 0, three_rows ! 1, three_rows ! 2] = three_rows"
    by (simp add: three_rows_def)
  ultimately show ?thesis using a by simp
qed

section \<open>Scalar KPIs and the weighted-mean identity\<close>

lemma sum_list_groups:
  fixes g :: "'a \<Rightarrow> rat"
  assumes "distinct ks"
  shows "f ` set xs \<subseteq> set ks \<Longrightarrow>
    (\<Sum>k\<leftarrow>ks. \<Sum>r\<leftarrow>filter (\<lambda>r. f r = k) xs. g r) = (\<Sum>r\<leftarrow>xs. g r)"
proof (induction xs)
  case Nil
  then show ?case by simp
next
  case (Cons x xs)
  have "(\<Sum>k\<leftarrow>ks. \<Sum>r\<leftarrow>filter (\<lambda>r. f r = k) (x # xs). g r) =
        (\<Sum>k\<leftarrow>ks. (if f x = k then g x else 0) + (\<Sum>r\<leftarrow>filter (\<lambda>r. f r = k) xs. g r))"
    by (rule arg_cong [where f = sum_list]) simp
  also have "\<dots> = (\<Sum>k\<leftarrow>ks. if f x = k then g x else 0) +
                   (\<Sum>k\<leftarrow>ks. \<Sum>r\<leftarrow>filter (\<lambda>r. f r = k) xs. g r)"
    by (simp add: sum_list_addf)
  also have "(\<Sum>k\<leftarrow>ks. if f x = k then g x else 0) = (\<Sum>k\<in>set ks. if f x = k then g x else 0)"
    using assms by (simp add: sum_list_distinct_conv_sum_set)
  also have "\<dots> = g x"
    using Cons.prems by simp
  finally show ?case using Cons by simp
qed

lemma count_list_map:
  "count_list (map f xs) k = length (filter (\<lambda>r. f r = k) xs)"
  by (induction xs) simp_all

lemma sum_binary_bounds:
  fixes xs :: "employee list"
  assumes "\<forall>r \<in> set xs. Attrition_Binary r = 0 \<or> Attrition_Binary r = 1"
  shows "0 \<le> (\<Sum>r\<leftarrow>xs. rat_of_int (Attrition_Binary r)) \<and>
         (\<Sum>r\<leftarrow>xs. rat_of_int (Attrition_Binary r)) \<le> of_nat (length xs)"
  using assms by (induction xs) auto

lemma sum_binary_count:
  fixes xs :: "employee list"
  assumes "\<forall>r \<in> set xs. Attrition_Binary r = (if Attrition r = ''Yes'' then 1 else 0)"
  shows "(\<Sum>r\<leftarrow>xs. rat_of_int (Attrition_Binary r)) =
         of_nat (length (filter (\<lambda>r. Attrition r = ''Yes'') xs))"
  using assms by (induction xs) auto

lemma kpis_value:
  "fst (kpis v) =
     Inr \<lparr>total_employees = int (length (rows v)),
          attrition_count = int (length (filter (\<lambda>r. Attrition r = ''Yes'') (rows v))),
          attrition_rate =
            (if rows v = [] then NA
             else Rate (of_nat (length (filter (\<lambda>r. Attrition r = ''Yes'') (rows v))) /
                        of_nat (length (rows v)) * 100))\<rparr>"
  by (simp add: kpis_def Let_def true_div_def getitem_mask_def eq_column take_rows_map)

lemma loaded_rows:
  assumes "load_data (Parsed t) = Inr df"
  shows "\<forall>r \<in> set (rows (filtered_df df c)).
           Attrition_Binary r = (if Attrition r = ''Yes'' then 1 else 0)"
proof -
  from assms have "rows df = map add_Attrition_Binary t"
    by (auto simp add: load_data_def)
  then show ?thesis by (auto simp add: rows_filtered_df)
qed

text \<open>
  Claim C7. The scalar KPI computation never raises: it returns the number of rows of the
  view as total, the number of rows whose Attrition is "Yes" as attrition count, and
  count / total * 100 as rate when total is positive; when total is 0 it gives the "N/A"
  sentinel in place of the rate, and no division by zero takes place.
\<close>

theorem kpis_scalar:
  "\<exists>k. fst (kpis v) = Inr k \<and>
     total_employees k = int (length (rows v)) \<and>
     attrition_count k = int (length (filter (\<lambda>r. Attrition r = ''Yes'') (rows v))) \<and>
     (total_employees k > 0 \<longrightarrow>
        attrition_rate k = Rate (of_int (attrition_count k) / of_int (total_employees k) * 100)) \<and>
     (total_employees k = 0 \<longrightarrow> attrition_rate k = NA)"
  by (simp add: kpis_value)

text \<open>
  On the three example rows: total 3, count 2, rate 200/3; on a frame without rows: total 0,
  count 0 and the sentinel.
\<close>

theorem kpis_scalar_witness:
  "(\<exists>k. fst (kpis (example_frame three_rows)) = Inr k \<and> total_employees k = 3 \<and>
       attrition_count k = 2 \<and> attrition_rate k = Rate (200 / 3)) \<and>
   (\<exists>k. fst (kpis (example_frame [])) = Inr k \<and> total_employees k = 0 \<and>
       attrition_count k = 0 \<and> attrition_rate k = NA)"
proof -
  from kpis_scalar [of "example_frame three_rows"] obtain k where
    "fst (kpis (example_frame three_rows)) = Inr k"
    "total_employees k = int (length (rows (example_frame three_rows)))"
    "attrition_count k =
       int (length (filter (\<lambda>r. Attrition r = ''Yes'') (rows (example_frame three_rows))))"
    "total_employees k > 0 \<longrightarrow>
        attrition_rate k = Rate (of_int (attrition_count k) / of_int (total_employees k) * 100)"
    by blast
  then have "fst (kpis (example_frame three_rows)) = Inr k \<and> total_employees k = 3 \<and>
       attrition_count k = 2 \<and> attrition_rate k = Rate (200 / 3)"
    by (simp add: example_frame_def three_rows_def)
  moreover
  from kpis_scalar [of "example_frame []"] obtain k0 where
    "fst (kpis (example_frame [])) = Inr k0"
    "total_employees k0 = int (length (rows (example_frame [])))"
    "attrition_count k0 =
       int (length (filter (\<lambda>r. Attrition r = ''Yes'') (rows (example_frame []))))"
    "total_employees k0 = 0 \<longrightarrow> attrition_rate k0 = NA"
    by blast
  then have "fst (kpis (example_frame [])) = Inr k0 \<and> total_employees k0 = 0 \<and>
       attrition_count k0 = 0 \<and> attrition_rate k0 = NA"
    by (simp add: example_frame_def)
  ultimately show ?thesis by blast
qed

text \<open>
  Claim C5. For every non-empty filtered view of a loaded table and every grouping column,
  every rate of the rate-by-dimension result is a number (not NaN) between 0 and 100, and the
  sum over the groups of group size times group rate, divided by the number of rows of the
  view, is the overall attrition rate that the KPI computation reports.
\<close>

theorem rate_bounds_weighted_mean:
  assumes "load_data (Parsed t) = Inr df" and "rows (filtered_df df c) \<noteq> []"
  shows "\<exists>rs. map (\<lambda>row. snd (snd row)) (fst (attrition_by f (filtered_df df c))) = map Some rs \<and>
           (\<forall>x \<in> set rs. 0 \<le> x \<and> x \<le> 100) \<and>
           (\<exists>k. fst (kpis (filtered_df df c)) = Inr k \<and>
              attrition_rate k =
                Rate ((\<Sum>kx\<leftarrow>zip (map fst (fst (attrition_by f (filtered_df df c)))) rs.
                         of_nat (count_list (column f (filtered_df df c)) (fst kx)) * snd kx) /
                      of_nat (length (rows (filtered_df df c)))))"
proof -
  define v where "v = filtered_df df c"
  define xs where "xs = rows v"
  define ks where "ks = sort (remdups (map f xs))"
  define S where "S k = (\<Sum>r\<leftarrow>filter (\<lambda>r. f r = k) xs. rat_of_int (Attrition_Binary r))" for k
  define n where "n k = length (filter (\<lambda>r. f r = k) xs)" for k
  define rs where "rs = map (\<lambda>k. S k / of_nat (n k) * 100) ks"
  have inv: "\<forall>r \<in> set xs. Attrition_Binary r = (if Attrition r = ''Yes'' then 1 else 0)"
    unfolding xs_def v_def using loaded_rows [OF assms(1)] by blast
  have ne: "xs \<noteq> []" using assms(2) by (simp add: xs_def v_def)
  have dist: "distinct ks" and setks: "set ks = f ` set xs"
    by (simp_all add: ks_def)
  have npos: "n k > 0" if "k \<in> set ks" for k
    using that setks by (auto simp add: n_def filter_empty_conv)
  have bounds: "0 \<le> S k \<and> S k \<le> of_nat (n k)" for k
    unfolding S_def n_def
    by (rule sum_binary_bounds) (use inv in auto)
  have res: "fst (attrition_by f v) =
      map (\<lambda>k. (k, Some (S k / of_nat (n k)), Some (S k / of_nat (n k) * 100))) ks"
    unfolding attrition_by_rows ks_def xs_def [symmetric]
  proof (rule map_cong [OF refl])
    fix k assume "k \<in> set (sort (remdups (map f xs)))"
    then have "filter (\<lambda>r. f r = k) xs \<noteq> []"
      by (auto simp add: filter_empty_conv)
    then show "(k, mean (map (\<lambda>r. rat_of_int (Attrition_Binary r)) (filter (\<lambda>r. f r = k) xs)),
          map_option (\<lambda>m. m * 100)
            (mean (map (\<lambda>r. rat_of_int (Attrition_Binary r)) (filter (\<lambda>r. f r = k) xs)))) =
         (k, Some (S k / of_nat (n k)), Some (S k / of_nat (n k) * 100))"
      by (simp add: mean_def S_def n_def)
  qed
  have rates: "map (\<lambda>row. snd (snd row)) (fst (attrition_by f v)) = map Some rs"
    by (simp add: res rs_def comp_def)
  have keys: "map fst (fst (attrition_by f v)) = ks"
    by (simp add: res comp_def)
  have range: "\<forall>x \<in> set rs. 0 \<le> x \<and> x \<le> 100"
  proof
    fix x assume "x \<in> set rs"
    then obtain k where k: "k \<in> set ks" and x: "x = S k / of_nat (n k) * 100"
      by (auto simp add: rs_def)
    define q where "q = S k / of_nat (n k)"
    from npos [OF k] bounds [of k]
    have "0 \<le> q" "q \<le> 1"
      by (simp_all add: q_def divide_le_eq)
    moreover have "x = q * 100" by (simp only: x q_def)
    ultimately show "0 \<le> x \<and> x \<le> 100" by simp
  qed
  have "(\<Sum>kx\<leftarrow>zip ks rs. of_nat (count_list (map f xs) (fst kx)) * snd kx) =
        (\<Sum>k\<leftarrow>ks. of_nat (n k) * (S k / of_nat (n k) * 100))"
    by (simp add: rs_def zip_map2 zip_same_conv_map comp_def count_list_map n_def)
  also have "\<dots> = (\<Sum>k\<leftarrow>ks. S k * 100)"
    by (rule arg_cong [where f = sum_list], rule map_cong [OF refl]) (use npos in fastforce)
  also have "\<dots> = (\<Sum>k\<leftarrow>ks. S k) * 100"
    by (simp add: sum_list_mult_const)
  also have "(\<Sum>k\<leftarrow>ks. S k) = (\<Sum>r\<leftarrow>xs. rat_of_int (Attrition_Binary r))"
    unfolding S_def by (rule sum_list_groups [OF dist]) (simp add: setks)
  also have "\<dots> = of_nat (length (filter (\<lambda>r. Attrition r = ''Yes'') xs))"
    by (rule sum_binary_count [OF inv])
  finally have total:
    "(\<Sum>kx\<leftarrow>zip ks rs. of_nat (count_list (map f xs) (fst kx)) * snd kx) / of_nat (length xs) =
       of_nat (length (filter (\<lambda>r. Attrition r = ''Yes'') xs)) / of_nat (length xs) * 100"
    by simp
  have "\<exists>k. fst (kpis v) = Inr k \<and>
          attrition_rate k =
            Rate ((\<Sum>kx\<leftarrow>zip (map fst (fst (attrition_by f v))) rs.
                     of_nat (count_list (column f v) (fst kx)) * snd kx) / of_nat (length (rows v)))"
    unfolding keys column_def xs_def [symmetric] total
    using ne by (simp add: kpis_value xs_def)
  with rates range show ?thesis unfolding v_def by blast
qed

text \<open>
  The three example rows load, all pass the criteria that select everything, and the
  identity holds for the grouping by Department.
\<close>

theorem rate_bounds_weighted_mean_witness:
  "\<exists>rs. map (\<lambda>row. snd (snd row))
            (fst (attrition_by Department (filtered_df (example_frame three_rows) select_all))) =
          map Some rs \<and>
        (\<forall>x \<in> set rs. 0 \<le> x \<and> x \<le> 100) \<and>
        (\<exists>k. fst (kpis (filtered_df (example_frame three_rows) select_all)) = Inr k \<and>
           attrition_rate k =
             Rate ((\<Sum>kx\<leftarrow>zip (map fst (fst (attrition_by Department
                                  (filtered_df (example_frame three_rows) select_all)))) rs.
                      of_nat (count_list
                                (column Department (filtered_df (example_frame three_rows) select_all))
                                (fst kx)) * snd kx) /
                   of_nat (length (rows (filtered_df (example_frame three_rows) select_all)))))"
proof -
  have l: "load_data (Parsed three_rows) = Inr (example_frame three_rows)"
    by (simp add: load_data_def example_frame_def)
  have n: "rows (filtered_df (example_frame three_rows) select_all) \<noteq> []"
    by (simp add: rows_filtered_df example_frame_def three_rows_def select_all_def)
  show ?thesis
    by (rule rate_bounds_weighted_mean [OF l n])
qed

section \<open>Properties of the binning transform\<close>

lemma cut_value_bins:
  "cut_value bins labels x =
     (if 0 \<le> x \<and> x < 1 then Some ''<1''
      else if 1 \<le> x \<and> x < 3 then Some ''1-3''
      else if 3 \<le> x \<and> x < 5 then Some ''3-5''
      else if 5 \<le> x \<and> x < 10 then Some ''5-10''
      else if 10 \<le> x \<and> x < 15 then Some ''10-15''
      else if 15 \<le> x \<and> x < 20 then Some ''15-20''
      else if 20 \<le> x \<and> x < 30 then Some ''20-30''
      else if 30 \<le> x \<and> x < 40 then Some ''30+''
      else None)"
  by (simp add: bins_def labels_def)

lemma cut_value_out_of_range:
  "x < 0 \<or> 40 \<le> x \<Longrightarrow> cut_value bins labels x = None"
proof (erule disjE)
  assume "x < 0"
  then show ?thesis by (simp add: bins_def labels_def)
next
  assume "40 \<le> x"
  then show ?thesis by (simp add: bins_def labels_def)
qed

lemma cut_value_in_range:
  "cut_value bins labels x = Some l \<Longrightarrow> 0 \<le> x \<and> x < 40"
proof (rule ccontr)
  assume a: "cut_value bins labels x = Some l" and "\<not> (0 \<le> x \<and> x < 40)"
  then have "x < 0 \<or> 40 \<le> x" by linarith
  then have "cut_value bins labels x = None" by (rule cut_value_out_of_range)
  with a show False by simp
qed

lemma binned_rows:
  "fst (attrition_by_years_company observed v) =
     add_Attrition_Rate
       (map (\<lambda>l. (l, mean (map (\<lambda>r. rat_of_int (Attrition_Binary r))
                      (filter (\<lambda>r. cut_value bins labels (YearsAtCompany r) = Some l) (rows v)))))
          (if observed
           then filter (\<lambda>l. Some l \<in> (\<lambda>r. cut_value bins labels (YearsAtCompany r)) ` set (rows v))
                  labels
           else labels))"
proof -
  have c: "cut_series (column YearsAtCompany v) bins labels =
           map (\<lambda>r. cut_value bins labels (YearsAtCompany r)) (rows v)"
    by (simp add: cut_series_def column_def)
  have r: "rows (setitem_YearsAtCompany_Binned v b) = rows v" for b
    by (simp add: setitem_YearsAtCompany_Binned_def)
  have a: "map rat_of_int (column Attrition_Binary (setitem_YearsAtCompany_Binned v b)) =
           map (\<lambda>r. rat_of_int (Attrition_Binary r)) (rows v)" for b
    by (simp add: column_def r)
  show ?thesis
    unfolding attrition_by_years_company_def Let_def fst_conv c a groupby_mean_categorical_def
      group_values_map
    by simp
qed

text \<open>
  Claim C6. The binning transform assigns a YearsAtCompany value to the label of the one
  interval among [0,1), [1,3), [3,5), [5,10), [10,15), [15,20), [20,30), [30,40) that
  contains it (labels <1, 1-3, 3-5, 5-10, 10-15, 15-20, 20-30, 30+), and to no label (NaN)
  when it is negative or at least 40. The column stored in the view holds these labels row
  by row; every key of the grouped result is one of the eight labels, and its mean is taken
  over exactly the rows assigned to that label; so the rows with a value outside all
  intervals are absent from the grouped result, which is the same as on the view without them.
\<close>

theorem years_at_company_binning:
  "cut_value bins labels x =
     (if 0 \<le> x \<and> x < 1 then Some ''<1''
      else if 1 \<le> x \<and> x < 3 then Some ''1-3''
      else if 3 \<le> x \<and> x < 5 then Some ''3-5''
      else if 5 \<le> x \<and> x < 10 then Some ''5-10''
      else if 10 \<le> x \<and> x < 15 then Some ''10-15''
      else if 15 \<le> x \<and> x < 20 then Some ''15-20''
      else if 20 \<le> x \<and> x < 30 then Some ''20-30''
      else if 30 \<le> x \<and> x < 40 then Some ''30+''
      else None) \<and>
   (x < 0 \<or> 40 \<le> x \<longrightarrow> cut_value bins labels x = None) \<and>
   YearsAtCompany_Binned (snd (attrition_by_years_company observed v)) =
     Some (map (\<lambda>r. cut_value bins labels (YearsAtCompany r)) (rows v)) \<and>
   set (map fst (fst (attrition_by_years_company observed v))) \<subseteq> set labels \<and>
   (\<forall>row \<in> set (fst (attrition_by_years_company observed v)).
      fst (snd row) =
        mean (map (\<lambda>r. of_int (Attrition_Binary r))
               (filter (\<lambda>r. cut_value bins labels (YearsAtCompany r) = Some (fst row)) (rows v))) \<and>
      snd (snd row) = map_option (\<lambda>m. m * 100) (fst (snd row))) \<and>
   fst (attrition_by_years_company observed v) =
     fst (attrition_by_years_company observed
            (v\<lparr>rows := filter (\<lambda>r. 0 \<le> YearsAtCompany r \<and> YearsAtCompany r < 40) (rows v)\<rparr>))"
proof (intro conjI)
  show "cut_value bins labels x =
     (if 0 \<le> x \<and> x < 1 then Some ''<1''
      else if 1 \<le> x \<and> x < 3 then Some ''1-3''
      else if 3 \<le> x \<and> x < 5 then Some ''3-5''
      else if 5 \<le> x \<and> x < 10 then Some ''5-10''
      else if 10 \<le> x \<and> x < 15 then Some ''10-15''
      else if 15 \<le> x \<and> x < 20 then Some ''15-20''
      else if 20 \<le> x \<and> x < 30 then Some ''20-30''
      else if 30 \<le> x \<and> x < 40 then Some ''30+''
      else None)"
    by (rule cut_value_bins)
  show "x < 0 \<or> 40 \<le> x \<longrightarrow> cut_value bins labels x = None"
    using cut_value_out_of_range by blast
  show "YearsAtCompany_Binned (snd (attrition_by_years_company observed v)) =
     Some (map (\<lambda>r. cut_value bins labels (YearsAtCompany r)) (rows v))"
    by (simp add: attrition_by_years_company_def Let_def setitem_YearsAtCompany_Binned_def
        cut_series_def column_def)
  show "set (map fst (fst (attrition_by_years_company observed v))) \<subseteq> set labels"
    by (auto simp add: binned_rows add_Attrition_Rate_def)
  show "\<forall>row \<in> set (fst (attrition_by_years_company observed v)).
      fst (snd row) =
        mean (map (\<lambda>r. of_int (Attrition_Binary r))
               (filter (\<lambda>r. cut_value bins labels (YearsAtCompany r) = Some (fst row)) (rows v))) \<and>
      snd (snd row) = map_option (\<lambda>m. m * 100) (fst (snd row))"
    by (auto simp add: binned_rows add_Attrition_Rate_def)
  define ys where "ys = filter (\<lambda>r. 0 \<le> YearsAtCompany r \<and> YearsAtCompany r < 40) (rows v)"
  have f: "filter (\<lambda>r. cut_value bins labels (YearsAtCompany r) = Some l) ys =
           filter (\<lambda>r. cut_value bins labels (YearsAtCompany r) = Some l) (rows v)" for l
    unfolding ys_def filter_filter
    by (rule filter_cong [OF refl]) (use cut_value_in_range in blast)
  have s: "Some l \<in> (\<lambda>r. cut_value bins labels (YearsAtCompany r)) ` set ys \<longleftrightarrow>
           Some l \<in> (\<lambda>r. cut_value bins labels (YearsAtCompany r)) ` set (rows v)" for l
  proof
    assume "Some l \<in> (\<lambda>r. cut_value bins labels (YearsAtCompany r)) ` set ys"
    then show "Some l \<in> (\<lambda>r. cut_value bins labels (YearsAtCompany r)) ` set (rows v)"
      by (auto simp add: ys_def)
  next
    assume "Some l \<in> (\<lambda>r. cut_value bins labels (YearsAtCompany r)) ` set (rows v)"
    then obtain r where r: "r \<in> set (rows v)"
      and l: "cut_value bins labels (YearsAtCompany r) = Some l"
      by (auto simp add: image_iff)
    from l have "0 \<le> YearsAtCompany r \<and> YearsAtCompany r < 40"
      by (rule cut_value_in_range)
    with r have "r \<in> set ys" by (simp add: ys_def)
    with l show "Some l \<in> (\<lambda>r. cut_value bins labels (YearsAtCompany r)) ` set ys"
      by (metis image_eqI)
  qed
  have rv: "rows (v\<lparr>rows := ys\<rparr>) = ys" by simp
  have "fst (attrition_by_years_company observed v) =
     fst (attrition_by_years_company observed (v\<lparr>rows := ys\<rparr>))"
    unfolding binned_rows rv f s ..
  then show "fst (attrition_by_years_company observed v) =
     fst (attrition_by_years_company observed
            (v\<lparr>rows := filter (\<lambda>r. 0 \<le> YearsAtCompany r \<and> YearsAtCompany r < 40) (rows v)\<rparr>))"
    by (simp only: ys_def)
qed

text \<open>
  Values 0, 1 and 39 get the labels <1, 1-3 and 30+; 40 and -1 get none. On the three example
  rows (2, 12 and 40 years) the stored column is 1-3, 10-15, NaN, and the grouped result is
  the one of the first two rows alone.
\<close>

theorem years_at_company_binning_witness:
  "cut_value bins labels 0 = Some ''<1'' \<and> cut_value bins labels 1 = Some ''1-3'' \<and>
   cut_value bins labels 39 = Some ''30+'' \<and> cut_value bins labels 40 = None \<and>
   cut_value bins labels (- 1) = None \<and>
   YearsAtCompany_Binned (snd (attrition_by_years_company False (example_frame three_rows))) =
     Some [Some ''1-3'', Some ''10-15'', None] \<and>
   fst (attrition_by_years_company True (example_frame three_rows)) =
     fst (attrition_by_years_company True (example_frame (take 2 three_rows)))"
proof -
  have "cut_value bins labels 0 = Some ''<1''"
    using years_at_company_binning [of 0] by simp
  moreover have "cut_value bins labels 1 = Some ''1-3''"
    using years_at_company_binning [of 1] by simp
  moreover have "cut_value bins labels 39 = Some ''30+''"
    using years_at_company_binning [of 39] by simp
  moreover have "cut_value bins labels 40 = None"
    using years_at_company_binning [of 40] by simp
  moreover have "cut_value bins labels (- 1) = None"
    using years_at_company_binning [of "- 1"] by simp
  moreover have "YearsAtCompany_Binned (snd (attrition_by_years_company False (example_frame three_rows))) =
     Some [Some ''1-3'', Some ''10-15'', None]"
    using years_at_company_binning [of 2 False "example_frame three_rows"]
      years_at_company_binning [of 12] years_at_company_binning [of 40]
    by (simp add: example_frame_def three_rows_def)
  moreover have "fst (attrition_by_years_company True (example_frame three_rows)) =
     fst (attrition_by_years_company True (example_frame (take 2 three_rows)))"
  proof -
    have "(example_frame three_rows)\<lparr>rows := filter (\<lambda>r. 0 \<le> YearsAtCompany r \<and> YearsAtCompany r < 40)
              (rows (example_frame three_rows))\<rparr> = example_frame (take 2 three_rows)"
      by (simp add: example_frame_def three_rows_def)
    with years_at_company_binning [of 0 True "example_frame three_rows"]
    show ?thesis by simp
  qed
  ultimately show ?thesis by blast
qed

section \<open>The empty-result gate, frame effects and idempotence\<close>

lemma snd_kpis: "snd (kpis v) = v"
  by (simp add: kpis_def Let_def)

lemma snd_attrition_by: "snd (attrition_by f v) = v"
  by (simp add: attrition_by_def)

lemma snd_avg_income: "snd (avg_income_edu_attrition v) = v"
  by (simp add: avg_income_edu_attrition_def)

lemma snd_binned:
  "snd (attrition_by_years_company observed v) =
     v\<lparr>YearsAtCompany_Binned := Some (cut_series (column YearsAtCompany v) bins labels)\<rparr>"
  by (simp add: attrition_by_years_company_def Let_def setitem_YearsAtCompany_Binned_def)

lemma tabs_head:
  "\<exists>k rest. tabs observed v = Metrics k # rest"
proof -
  obtain k where k: "fst (kpis v) = Inr k"
    using kpis_value by blast
  show ?thesis
    unfolding tabs_def split_def Let_def k by simp
qed

text \<open>
  Claim C3. Whenever the filtered view has no row, the run shows the warning
  "No data matches the selected filters. Please adjust your selections." and nothing else:
  it stops before any aggregation. So a run that shows the result of an aggregation
  transform has a filtered view with at least one row.
\<close>

theorem empty_result_warning:
  "(rows (filtered_df df c) = [] \<longrightarrow>
      dashboard observed df c =
        [Warning ''No data matches the selected filters. Please adjust your selections.'']) \<and>
   ((\<exists>s \<in> set (dashboard observed df c). is_aggregation s) \<longrightarrow> rows (filtered_df df c) \<noteq> [])"
proof (intro conjI impI)
  assume "rows (filtered_df df c) = []"
  then show "dashboard observed df c =
        [Warning ''No data matches the selected filters. Please adjust your selections.'']"
    by (simp add: dashboard_def empty_df_def)
next
  assume a: "\<exists>s \<in> set (dashboard observed df c). is_aggregation s"
  show "rows (filtered_df df c) \<noteq> []"
  proof
    assume "rows (filtered_df df c) = []"
    then have "dashboard observed df c =
        [Warning ''No data matches the selected filters. Please adjust your selections.'']"
      by (simp add: dashboard_def empty_df_def)
    with a show False by simp
  qed
qed

text \<open>
  On the three example rows: with an empty list of departments the run is the warning
  alone; with everything selected the run shows an aggregation and the view has rows.
\<close>

theorem empty_result_warning_witness:
  "dashboard False (example_frame three_rows) (select_all\<lparr>selected_department := []\<rparr>) =
     [Warning ''No data matches the selected filters. Please adjust your selections.''] \<and>
   (\<exists>s \<in> set (dashboard False (example_frame three_rows) select_all). is_aggregation s) \<and>
   rows (filtered_df (example_frame three_rows) select_all) \<noteq> []"
proof -
  let ?df = "example_frame three_rows"
  have "rows (filtered_df ?df (select_all\<lparr>selected_department := []\<rparr>)) = []"
    by (simp add: rows_filtered_df)
  with empty_result_warning [of ?df "select_all\<lparr>selected_department := []\<rparr>" False]
  have a: "dashboard False ?df (select_all\<lparr>selected_department := []\<rparr>) =
     [Warning ''No data matches the selected filters. Please adjust your selections.'']"
    by blast
  have "rows (filtered_df ?df select_all) \<noteq> []"
    by (simp add: rows_filtered_df example_frame_def three_rows_def select_all_def)
  then have "dashboard False ?df select_all = tabs False (filtered_df ?df select_all)"
    by (simp add: dashboard_def empty_df_def)
  moreover obtain k rest where "tabs False (filtered_df ?df select_all) = Metrics k # rest"
    using tabs_head by blast
  ultimately have b: "\<exists>s \<in> set (dashboard False ?df select_all). is_aggregation s"
    by simp
  with empty_result_warning [of ?df select_all False]
  have "rows (filtered_df ?df select_all) \<noteq> []"
    by blast
  with a b show ?thesis by blast
qed

text \<open>
  The binning transform does change the view: after it, the frame of the three example rows
  has the column YearsAtCompany_Binned, which it did not have before.
\<close>

theorem binning_mutates_view_counterexample:
  "snd (attrition_by_years_company False (example_frame three_rows)) \<noteq> example_frame three_rows \<and>
   snd (attrition_by_years_company True (example_frame three_rows)) \<noteq> example_frame three_rows"
  by (simp add: snd_binned example_frame_def)

text \<open>
  Claim C8, amended. The rate-by-dimension transform (for every grouping column), the
  two-key mean-income aggregation and the scalar KPIs leave the view as it is. The binning
  transform leaves the rows of the view as they are and sets the column
  YearsAtCompany_Binned of the view to the bin labels of the rows.
\<close>

theorem transforms_frame:
  "snd (attrition_by f v) = v \<and>
   snd (avg_income_edu_attrition v) = v \<and>
   snd (kpis v) = v \<and>
   snd (attrition_by_years_company observed v) =
     v\<lparr>YearsAtCompany_Binned := Some (cut_series (column YearsAtCompany v) bins labels)\<rparr> \<and>
   rows (snd (attrition_by_years_company observed v)) = rows v"
  by (simp add: snd_kpis snd_attrition_by snd_avg_income snd_binned)

text \<open>
  On the three example rows: three transforms return the frame unchanged, the binning
  transform returns it with the column 1-3, 10-15, NaN.
\<close>

theorem transforms_frame_witness:
  "snd (attrition_by Department (example_frame three_rows)) = example_frame three_rows \<and>
   snd (avg_income_edu_attrition (example_frame three_rows)) = example_frame three_rows \<and>
   snd (kpis (example_frame three_rows)) = example_frame three_rows \<and>
   snd (attrition_by_years_company False (example_frame three_rows)) =
     \<lparr>rows = map add_Attrition_Binary three_rows,
      YearsAtCompany_Binned = Some [Some ''1-3'', Some ''10-15'', None]\<rparr>"
proof -
  have "cut_series (column YearsAtCompany (example_frame three_rows)) bins labels =
        [Some ''1-3'', Some ''10-15'', None]"
    by (simp add: example_frame_def three_rows_def cut_series_def column_def cut_value_bins)
  with transforms_frame [of Department "example_frame three_rows" False]
  show ?thesis
    by (simp add: example_frame_def)
qed

text \<open>
  Claim C9. Every aggregation transform gives the same output when it is invoked a second
  time on the view that the first invocation left, and leaves that view as it is: for
  rate-by-dimension, the two-key aggregation and the KPIs the view is unchanged anyway, and
  the binning transform stores the same column again.
\<close>

theorem transforms_idempotent:
  "attrition_by f (snd (attrition_by f v)) = attrition_by f v \<and>
   avg_income_edu_attrition (snd (avg_income_edu_attrition v)) = avg_income_edu_attrition v \<and>
   kpis (snd (kpis v)) = kpis v \<and>
   attrition_by_years_company observed (snd (attrition_by_years_company observed v)) =
     attrition_by_years_company observed v"
proof (intro conjI)
  show "attrition_by f (snd (attrition_by f v)) = attrition_by f v"
    by (simp add: snd_attrition_by)
  show "avg_income_edu_attrition (snd (avg_income_edu_attrition v)) = avg_income_edu_attrition v"
    by (simp add: snd_avg_income)
  show "kpis (snd (kpis v)) = kpis v"
    by (simp add: snd_kpis)
  show "attrition_by_years_company observed (snd (attrition_by_years_company observed v)) =
     attrition_by_years_company observed v"
    unfolding snd_binned
    by (simp add: attrition_by_years_company_def Let_def setitem_YearsAtCompany_Binned_def
        column_def)
qed

text \<open>
  On the three example rows: the second run of the Department rates and of the binned rates
  gives the values of the first.
\<close>

theorem transforms_idempotent_witness:
  "fst (attrition_by Department (snd (attrition_by Department (example_frame three_rows)))) =
     [(''RnD'', Some 1, Some 100), (''Sales'', Some (1 / 2), Some 50)] \<and>
   fst (attrition_by_years_company True
          (snd (attrition_by_years_company True (example_frame three_rows)))) =
     [(''1-3'', Some 1, Some 100), (''10-15'', Some 0, Some 0)]"
proof -
  have a: "fst (attrition_by Department (example_frame three_rows)) =
     [(''RnD'', Some 1, Some 100), (''Sales'', Some (1 / 2), Some 50)]"
    by (simp add: attrition_by_rows example_frame_def three_rows_def mean_def)
  have cv: "cut_value bins labels 2 = Some ''1-3''" "cut_value bins labels 12 = Some ''10-15''"
    "cut_value bins labels 40 = None"
    by (simp_all add: cut_value_bins)
  have b: "fst (attrition_by_years_company True (example_frame three_rows)) =
     [(''1-3'', Some 1, Some 100), (''10-15'', Some 0, Some 0)]"
    unfolding binned_rows
    by (simp add: example_frame_def three_rows_def cv,
        simp add: labels_def bins_def add_Attrition_Rate_def mean_def)
  from transforms_idempotent [of Department "example_frame three_rows" True] a b
  show ?thesis by simp
qed

end
